theory Spec2Isabelle
  imports Main "HOL-Library.Word"
begin

unbundle bit_operations_syntax

section \<open>Data model\<close>

text \<open>
  A shallow embedding of \<^verbatim>\<open>sec-lab-bot.py\<close>. Python \<^verbatim>\<open>bytes\<close> are lists of
  8-bit words, Python integers are \<^typ>\<open>int\<close>, and the request type is the Python
  string the program compares against.
\<close>

type_synonym byte = "8 word"
type_synonym bytes = "byte list"

text \<open>
  The exceptions that occur in the program. \<open>PyException msg\<close> is
  \<^verbatim>\<open>raise Exception(msg)\<close>; \<open>OSError\<close> stands for every failure of the socket, the
  TLS layer and the file system (all of them subclasses of \<^verbatim>\<open>OSError\<close>);
  \<open>KeyboardInterrupt\<close> is the one exception class of the program (handled in
  \<^verbatim>\<open>main\<close>) that is not a subclass of \<^verbatim>\<open>Exception\<close>.
\<close>

datatype exn =
    AttributeError
  | OverflowError
  | PyException string
  | OSError
  | KeyboardInterrupt

fun is_Exception :: "exn \<Rightarrow> bool" where
  "is_Exception KeyboardInterrupt = False"
| "is_Exception _ = True"

subsection \<open>Constants of the module\<close>

definition MAX_AGE :: int where "MAX_AGE = 10"

definition FLAG_OPEN_REQ :: int where "FLAG_OPEN_REQ = 0xFF"
definition FLAG_CLOSE_REQ :: int where "FLAG_CLOSE_REQ = 0x00"
definition FLAG_KEYGEN_REQ :: int where "FLAG_KEYGEN_REQ = 0xAA"
definition FLAG_ALL_GOOD :: int where "FLAG_ALL_GOOD = 0xFF"
definition FLAG_KEYGEN_ACK :: int where "FLAG_KEYGEN_ACK = 0x55"

definition EXIT_SUCCESS :: bool where "EXIT_SUCCESS = True"
definition EXIT_FAILURE :: bool where "EXIT_FAILURE = False"

section \<open>Wire codec\<close>

text \<open>
  \<^verbatim>\<open>int.from_bytes(data, byteorder='little', signed=sgn)\<close>: the little-endian value
  of the bytes; with \<^verbatim>\<open>signed\<close> the top bit of the last byte is the sign. The empty
  byte string has the value 0 either way; no input makes it raise.
\<close>

fun le_value :: "bytes \<Rightarrow> int" where
  "le_value [] = 0"
| "le_value (b # bs) = uint b + 256 * le_value bs"

definition from_bytes :: "bytes \<Rightarrow> bool \<Rightarrow> int" where
  "from_bytes data sg =
     (let u = le_value data; n = length data
      in if sg \<and> 0 < n \<and> 2 ^ (8 * n - 1) \<le> u then u - 2 ^ (8 * n) else u)"

text \<open>
  \<^verbatim>\<open>i.to_bytes(size, byteorder='little', signed=sgn)\<close>: \<^verbatim>\<open>OverflowError\<close> when
  \<open>i\<close> does not fit. Unsigned, \<open>i\<close> fits when \<open>0 \<le> i < 256 ^ size\<close>. Signed, it fits
  when \<open>- 2 ^ (8 * size - 1) \<le> i < 2 ^ (8 * size - 1)\<close>; at \<open>size = 0\<close> CPython checks no
  sign bit, so that both \<open>0\<close> and \<open>-1\<close> are turned into the empty byte string.
\<close>

fun le_bytes :: "nat \<Rightarrow> int \<Rightarrow> bytes" where
  "le_bytes 0 i = []"
| "le_bytes (Suc n) i = word_of_int (i mod 256) # le_bytes n (i div 256)"

definition to_bytes :: "int \<Rightarrow> nat \<Rightarrow> bool \<Rightarrow> exn + bytes" where
  "to_bytes i sz sg =
     (if \<not> sg then
        (if i < 0 then Inl OverflowError
         else if 256 ^ sz \<le> i then Inl OverflowError
         else Inr (le_bytes sz i))
      else if sz = 0 then
        (if i = 0 \<or> i = - 1 then Inr [] else Inl OverflowError)
      else if - (2 ^ (8 * sz - 1)) \<le> i \<and> i < 2 ^ (8 * sz - 1) then Inr (le_bytes sz i)
      else Inl OverflowError)"

text \<open>\<^verbatim>\<open>wire_decode_int(data, sgn=False)\<close> and \<^verbatim>\<open>wire_encode_int(i, size, sgn=False)\<close>.\<close>

definition wire_decode_int :: "bytes \<Rightarrow> bool \<Rightarrow> exn + int" where
  "wire_decode_int data sg = Inr (from_bytes data sg)"

definition wire_encode_int :: "int \<Rightarrow> nat \<Rightarrow> bool \<Rightarrow> exn + bytes" where
  "wire_encode_int i sz sg = to_bytes i sz sg"

text \<open>
  What the specification calls representable in \<open>w\<close> bytes: an unsigned value below
  \<open>256 ^ w\<close>, a signed value in the two's complement range of \<open>8 * w\<close> bits (zero
  bytes hold the value 0 only).
\<close>

definition representable :: "bool \<Rightarrow> nat \<Rightarrow> int \<Rightarrow> bool" where
  "representable sg w v =
     (if sg then - (256 ^ w) \<le> 2 * v \<and> 2 * v < 256 ^ w else 0 \<le> v \<and> v < 256 ^ w)"

section \<open>Library functions\<close>

text \<open>
  \<^verbatim>\<open>hmac.new(key, msg=data, digestmod=hashlib.sha256).digest()\<close> is a function of the
  Python library, not of the program: the model takes it as a parameter, called
  \<open>hmac_sha256\<close>, from the key and the message to the digest. The only property of it
  that is used is that a digest has 32 bytes. \<open>sample_mac\<close> is one function of that
  shape, for where a concrete one is needed.
\<close>

type_synonym mac_fun = "bytes \<Rightarrow> bytes \<Rightarrow> bytes"

definition sample_mac :: mac_fun where
  "sample_mac key msg = take 32 (key @ msg @ replicate 32 0)"

text \<open>\<^verbatim>\<open>base64.b64encode\<close>, after RFC 4648.\<close>

definition b64_alphabet :: bytes where
  "b64_alphabet =
     map of_char ''ABCDEFGHIJKLMNOPQRSTUVWXYZabcdefghijklmnopqrstuvwxyz0123456789+/''"

definition b64_char :: "byte \<Rightarrow> byte" where
  "b64_char x = b64_alphabet ! unat x"

fun b64encode :: "bytes \<Rightarrow> bytes" where
  "b64encode [] = []"
| "b64encode [a] =
     [b64_char (drop_bit 2 a), b64_char (push_bit 4 (a AND 3)), 0x3D, 0x3D]"
| "b64encode [a, b] =
     [b64_char (drop_bit 2 a), b64_char (push_bit 4 (a AND 3) OR drop_bit 4 b),
      b64_char (push_bit 2 (b AND 15)), 0x3D]"
| "b64encode (a # b # c # rest) =
     [b64_char (drop_bit 2 a), b64_char (push_bit 4 (a AND 3) OR drop_bit 4 b),
      b64_char (push_bit 2 (b AND 15) OR drop_bit 6 c), b64_char (c AND 63)]
     @ b64encode rest"

section \<open>State and environment\<close>

text \<open>
  The state the program reads and writes: the module global \<^verbatim>\<open>KEY\<close>, loaded from
  the key file when the module starts, and the contents of the file \<^verbatim>\<open>KEY_FILE\<close>.
  Writing to the log file is not modelled.
\<close>

record state =
  KEY :: bytes
  key_file :: bytes

text \<open>
  How a call that waits for the outside ends: it returns a value, it raises (an
  \<^verbatim>\<open>OSError\<close> of the socket or the TLS layer, or a \<^verbatim>\<open>KeyboardInterrupt\<close> that
  arrives while it waits), or it blocks and never returns.
\<close>

datatype 'a call = Returns 'a | Raises exn | Blocks

text \<open>
  How writing the key file ends: written; \<^verbatim>\<open>open\<close> failed, and the file is as it was;
  or the write failed after \<^verbatim>\<open>open(KEY_FILE, 'wb')\<close> had truncated the file and
  the given number of bytes of the text had reached it.
\<close>

datatype write_outcome = Written | OpenFailed | WriteFailed nat

text \<open>
  What the outside does during one call of \<^verbatim>\<open>ssl_request\<close>: how wrapping the socket
  and connecting end, the clock read by \<^verbatim>\<open>make_request\<close>, how \<^verbatim>\<open>sendall\<close> ends,
  how the first, second and third \<^verbatim>\<open>conn.recv\<close> end, the clock read by
  \<^verbatim>\<open>timestamp_verify\<close>, and how writing the key file ends. The clock readings are
  \<^verbatim>\<open>time.time().__trunc__()\<close>.
\<close>

record world =
  connect :: "unit call"
  clock_request :: int
  sendall :: "unit call"
  recv_first :: "bytes call"
  recv_second :: "bytes call"
  clock_verify :: int
  recv_third :: "bytes call"
  key_write :: write_outcome

text \<open>\<^verbatim>\<open>conn.recv(n)\<close> returns at most \<open>n\<close> bytes, or raises, or blocks.\<close>

definition recv :: "bytes call \<Rightarrow> nat \<Rightarrow> bytes call" where
  "recv r n =
     (case r of Returns bs \<Rightarrow> Returns (take n bs) | Raises e \<Rightarrow> Raises e | Blocks \<Rightarrow> Blocks)"

text \<open>
  \<^verbatim>\<open>write_key_to_file(key)\<close>: \<^verbatim>\<open>open(KEY_FILE, 'wb')\<close> truncates the file, then
  the Base64 text of the key is written.
\<close>

definition write_key_to_file :: "write_outcome \<Rightarrow> state \<Rightarrow> bytes \<Rightarrow> state \<times> (exn + unit)" where
  "write_key_to_file out s key =
     (case out of
        OpenFailed \<Rightarrow> (s, Inl OSError)
      | WriteFailed n \<Rightarrow> (s\<lparr>key_file := take n (b64encode key)\<rparr>, Inl OSError)
      | Written \<Rightarrow> (s\<lparr>key_file := b64encode key\<rparr>, Inr ()))"

section \<open>Request protocol\<close>

text \<open>\<^verbatim>\<open>timestamp_bytes()\<close> and \<^verbatim>\<open>timestamp_verify(tdata)\<close>, at the clock reading \<open>now\<close>.\<close>

definition timestamp_bytes :: "int \<Rightarrow> exn + bytes" where
  "timestamp_bytes now = wire_encode_int now 8 True"

definition timestamp_verify :: "int \<Rightarrow> bytes \<Rightarrow> exn + bool" where
  "timestamp_verify now tdata =
     (case wire_decode_int tdata True of
        Inl e \<Rightarrow> Inl e
      | Inr t \<Rightarrow> Inr (now - t \<le> MAX_AGE))"

text \<open>
  \<^verbatim>\<open>make_request(reqtype)\<close>. For a request type that is none of the three strings
  \<^verbatim>\<open>val\<close> stays \<^verbatim>\<open>None\<close>, and \<^verbatim>\<open>None.to_bytes\<close> raises \<^verbatim>\<open>AttributeError\<close>.
\<close>

definition make_request :: "mac_fun \<Rightarrow> state \<Rightarrow> int \<Rightarrow> string \<Rightarrow> exn + bytes" where
  "make_request hmac_sha256 s now reqtype =
     (let val = (if reqtype = ''open'' then Some FLAG_OPEN_REQ
                 else if reqtype = ''close'' then Some FLAG_CLOSE_REQ
                 else if reqtype = ''keygen'' then Some FLAG_KEYGEN_REQ
                 else None)
      in case val of
           None \<Rightarrow> Inl AttributeError
         | Some v \<Rightarrow>
             (case wire_encode_int v 1 False of
                Inl e \<Rightarrow> Inl e
              | Inr flag \<Rightarrow>
                  (case timestamp_bytes now of
                     Inl e \<Rightarrow> Inl e
                   | Inr ts \<Rightarrow>
                       (let data = flag @ ts
                        in Inr (data @ hmac_sha256 (KEY s) data)))))"

text \<open>
  The body of the \<^verbatim>\<open>try\<close> block of \<^verbatim>\<open>ssl_request\<close>, with the state it leaves
  and how it ends.
\<close>

definition ssl_request_try ::
  "mac_fun \<Rightarrow> state \<Rightarrow> world \<Rightarrow> string \<Rightarrow> state \<times> unit call" where
  "ssl_request_try hmac_sha256 s w reqtype =
     (case connect w of
        Blocks \<Rightarrow> (s, Blocks)
      | Raises e \<Rightarrow> (s, Raises e)
      | Returns _ \<Rightarrow>
     (case make_request hmac_sha256 s (clock_request w) reqtype of
        Inl e \<Rightarrow> (s, Raises e)
      | Inr msg \<Rightarrow>
     (case sendall w of
        Blocks \<Rightarrow> (s, Blocks)
      | Raises e \<Rightarrow> (s, Raises e)
      | Returns _ \<Rightarrow>
          if reqtype \<in> set [''open'', ''close''] then
            (case recv (recv_first w) 1 of
               Blocks \<Rightarrow> (s, Blocks)
             | Raises e \<Rightarrow> (s, Raises e)
             | Returns status \<Rightarrow>
                 (case wire_decode_int status False of
                    Inl e \<Rightarrow> (s, Raises e)
                  | Inr v \<Rightarrow>
                      if v \<noteq> FLAG_ALL_GOOD
                      then (s, Raises (PyException ''client received bad response''))
                      else (s, Returns ())))
          else if reqtype \<in> set [''keygen''] then
            (case recv (recv_first w) 1 of
               Blocks \<Rightarrow> (s, Blocks)
             | Raises e \<Rightarrow> (s, Raises e)
             | Returns ack \<Rightarrow>
                 (case wire_decode_int ack False of
                    Inl e \<Rightarrow> (s, Raises e)
                  | Inr v \<Rightarrow>
                      if v \<noteq> FLAG_KEYGEN_ACK
                      then (s, Raises (PyException ''client received bad response''))
                      else
                        (case recv (recv_second w) 8 of
                           Blocks \<Rightarrow> (s, Blocks)
                         | Raises e \<Rightarrow> (s, Raises e)
                         | Returns tdata \<Rightarrow>
                             (case timestamp_verify (clock_verify w) tdata of
                                Inl e \<Rightarrow> (s, Raises e)
                              | Inr fresh \<Rightarrow>
                                  if \<not> fresh
                                  then (s, Raises (PyException ''client received stale response''))
                                  else
                                    (case recv (recv_third w) 32 of
                                       Blocks \<Rightarrow> (s, Blocks)
                                     | Raises e \<Rightarrow> (s, Raises e)
                                     | Returns key \<Rightarrow>
                                         (case write_key_to_file (key_write w) s key of
                                            (s', Inl e) \<Rightarrow> (s', Raises e)
                                          | (s', Inr u) \<Rightarrow> (s', Returns u)))))))
          else (s, Returns ()))))"

text \<open>
  \<^verbatim>\<open>ssl_request(reqtype)\<close>: \<^verbatim>\<open>except Exception\<close> turns every exception of the
  \<^verbatim>\<open>try\<close> block that is an \<^verbatim>\<open>Exception\<close> into \<^verbatim>\<open>EXIT_FAILURE\<close>; any other
  exception leaves the function, and a call that blocks keeps it from returning.
\<close>

definition ssl_request ::
  "mac_fun \<Rightarrow> state \<Rightarrow> world \<Rightarrow> string \<Rightarrow> state \<times> bool call" where
  "ssl_request hmac_sha256 s w reqtype =
     (case ssl_request_try hmac_sha256 s w reqtype of
        (s', Returns _) \<Rightarrow> (s', Returns EXIT_SUCCESS)
      | (s', Raises e) \<Rightarrow>
          if is_Exception e then (s', Returns EXIT_FAILURE) else (s', Raises e)
      | (s', Blocks) \<Rightarrow> (s', Blocks))"

section \<open>Notions of the specification\<close>

text \<open>
  A timestamp that fits the 8 bytes of the wire format (signed 64-bit), and the flag byte
  the specification gives each request kind: Open \<open>0xFF\<close>, Close \<open>0x00\<close>,
  KeyRotation \<open>0xAA\<close>.
\<close>

definition in_int64 :: "int \<Rightarrow> bool" where
  "in_int64 t = (- (2 ^ 63) \<le> t \<and> t < 2 ^ 63)"

definition flag_of :: "string \<Rightarrow> byte" where
  "flag_of reqtype =
     (if reqtype = ''open'' then 0xFF else if reqtype = ''close'' then 0x00 else 0xAA)"

text \<open>
  A channel every call of which returns or raises an \<^verbatim>\<open>Exception\<close>: none blocks for
  ever, none is interrupted.
\<close>

fun call_ends :: "'a call \<Rightarrow> bool" where
  "call_ends (Returns x) = True"
| "call_ends (Raises e) = is_Exception e"
| "call_ends Blocks = False"

definition channel_ends :: "world \<Rightarrow> bool" where
  "channel_ends w =
     (call_ends (connect w) \<and> call_ends (sendall w) \<and> call_ends (recv_first w)
      \<and> call_ends (recv_second w) \<and> call_ends (recv_third w))"

section \<open>Properties of the wire codec\<close>

lemma length_le_bytes: "length (le_bytes n i) = n"
  by (induction n arbitrary: i) simp_all

lemma le_value_le_bytes: "le_value (le_bytes n i) = i mod 256 ^ n"
proof (induction n arbitrary: i)
  case 0
  show ?case by simp
next
  case (Suc n)
  have b: "uint (word_of_int (i mod 256) :: byte) = i mod 256"
    by (simp add: uint_word_of_int)
  have "i mod (256 * 256 ^ n) = 256 * (i div 256 mod 256 ^ n) + i mod 256"
    by (rule zmod_zmult2_eq) simp
  with Suc b show ?case by simp
qed

lemma pow256: "(256::int) ^ w = 2 ^ (8 * w)"
  by (simp add: power_mult)

lemma half_pow: "0 < w \<Longrightarrow> (2::int) * 2 ^ (8 * w - 1) = 2 ^ (8 * w)"
proof -
  assume "0 < w"
  then have "Suc (8 * w - 1) = 8 * w" by simp
  then have "(2::int) ^ Suc (8 * w - 1) = 2 ^ (8 * w)" by (rule arg_cong)
  then show ?thesis by simp
qed

lemma mod_negative_range: "- m \<le> v \<Longrightarrow> v < 0 \<Longrightarrow> (v::int) mod m = v + m"
proof -
  assume a: "- m \<le> v" "v < 0"
  have "(v + m) mod m = v + m" using a by (intro mod_pos_pos_trivial) simp_all
  then show ?thesis by simp
qed

lemma from_bytes_unsigned: "0 \<le> v \<Longrightarrow> v < 256 ^ w \<Longrightarrow> from_bytes (le_bytes w v) False = v"
  by (simp add: from_bytes_def le_value_le_bytes length_le_bytes)

lemma from_bytes_signed:
  assumes w: "0 < w" and lo: "- (2 ^ (8 * w - 1)) \<le> v" and hi: "v < 2 ^ (8 * w - 1)"
  shows "from_bytes (le_bytes w v) True = v"
proof -
  define h :: int where "h = 2 ^ (8 * w - 1)"
  have m: "(256::int) ^ w = 2 * h" using half_pow [OF w] by (simp add: h_def pow256)
  have hpos: "0 < h" by (simp add: h_def)
  show ?thesis
  proof (cases "0 \<le> v")
    case True
    then have "v mod (2 * h) = v" using hi by (simp add: h_def)
    then show ?thesis using hi w True m
      by (simp add: from_bytes_def le_value_le_bytes length_le_bytes h_def)
  next
    case False
    then have "v mod (2 * h) = v + 2 * h"
      using lo hpos by (intro mod_negative_range) (simp_all add: h_def)
    then show ?thesis using lo w False m half_pow [OF w]
      by (simp add: from_bytes_def le_value_le_bytes length_le_bytes h_def)
  qed
qed

lemma timestamp_bytes_ok:
  "- (2 ^ 63) \<le> t \<Longrightarrow> t < 2 ^ 63 \<Longrightarrow> timestamp_bytes t = Inr (le_bytes 8 t)"
  by (simp add: timestamp_bytes_def wire_encode_int_def to_bytes_def)

lemma from_bytes_timestamp:
  "- (2 ^ 63) \<le> t \<Longrightarrow> t < 2 ^ 63 \<Longrightarrow> from_bytes (le_bytes 8 t) True = t"
  using from_bytes_signed [of 8 t] by simp

text \<open>
  C5 (as amended). For every width \<open>w\<close> and every value \<open>v\<close> representable in \<open>w\<close>
  bytes, encoding succeeds, gives \<open>w\<close> bytes, and decoding them with the same signedness
  returns \<open>v\<close>. For every \<open>v\<close> not representable in \<open>w\<close> bytes encoding fails with
  \<^verbatim>\<open>OverflowError\<close>, except for \<open>v = -1\<close> at width 0 with signed encoding.
\<close>

theorem wire_int_roundtrip:
  "(representable sg w v \<longrightarrow>
      (\<exists>bs. wire_encode_int v w sg = Inr bs \<and> length bs = w \<and> wire_decode_int bs sg = Inr v))
   \<and> (\<not> representable sg w v \<and> \<not> (sg \<and> w = 0 \<and> v = - 1) \<longrightarrow>
      wire_encode_int v w sg = Inl OverflowError)"
proof (cases sg)
  case False
  then show ?thesis
    by (auto simp: representable_def wire_encode_int_def wire_decode_int_def to_bytes_def
        from_bytes_unsigned length_le_bytes)
next
  case sg: True
  show ?thesis
  proof (cases "w = 0")
    case True
    with sg show ?thesis
      by (auto simp: representable_def wire_encode_int_def wire_decode_int_def to_bytes_def
          from_bytes_def)
  next
    case False
    then have w: "0 < w" by simp
    have m: "(256::int) ^ w = 2 * 2 ^ (8 * w - 1)" using half_pow [OF w] by (simp add: pow256)
    have r: "representable True w v = (- (2 ^ (8 * w - 1)) \<le> v \<and> v < 2 ^ (8 * w - 1))"
      unfolding representable_def m by auto
    show ?thesis using sg w
      by (auto simp: r wire_encode_int_def wire_decode_int_def to_bytes_def
          from_bytes_signed length_le_bytes)
  qed
qed

theorem wire_int_roundtrip_witness:
  "representable True 8 (- 2)
   \<and> (\<exists>bs. wire_encode_int (- 2) 8 True = Inr bs \<and> length bs = 8
         \<and> wire_decode_int bs True = Inr (- 2))
   \<and> \<not> representable False 1 256
   \<and> wire_encode_int 256 1 False = Inl OverflowError"
proof -
  have r: "representable True 8 (- 2)" by (simp add: representable_def)
  have n: "\<not> representable False 1 256 \<and> \<not> (False \<and> (1::nat) = 0 \<and> (256::int) = - 1)"
    by (simp add: representable_def)
  from wire_int_roundtrip [of True 8 "- 2"] r wire_int_roundtrip [of False 1 256] n
  show ?thesis by simp
qed

text \<open>
  C5 as stated fails at width 0: \<open>-1\<close> is not representable in zero bytes, yet the signed
  encoding of \<open>-1\<close> at width 0 succeeds with the empty byte string, which decodes to 0.
\<close>

theorem wire_int_roundtrip_counterexample:
  "\<not> representable True 0 (- 1)
   \<and> wire_encode_int (- 1) 0 True = Inr []
   \<and> wire_decode_int [] True = Inr 0"
  by (simp add: representable_def wire_encode_int_def wire_decode_int_def to_bytes_def
      from_bytes_def)

text \<open>
  C6 (as amended). Decoding the empty byte string returns 0, signed or unsigned; it does
  not fail.
\<close>

theorem decode_empty: "wire_decode_int [] sg = Inr 0"
  by (simp add: wire_decode_int_def from_bytes_def)

text \<open>C6 as stated fails: the zero-length input is decoded to a value.\<close>

theorem decode_empty_counterexample:
  "wire_decode_int [] False = Inr 0 \<and> \<not> isl (wire_decode_int [] False)"
  by (simp add: wire_decode_int_def from_bytes_def)

section \<open>Properties of the freshness check\<close>

text \<open>
  C4. The freshness check accepts exactly when the clock reading minus the decoded
  response timestamp is at most 10: for every byte string received, and for every
  timestamp \<open>t\<close> of the wire format in its 8-byte encoding. So a response exactly 10
  seconds old is accepted, one 11 seconds old is rejected, and a timestamp in the future
  is accepted.
\<close>

theorem freshness_bound:
  "timestamp_verify now tdata = Inr (now - from_bytes tdata True \<le> 10) \<and>
   (- (2 ^ 63) \<le> t \<and> t < 2 ^ 63 \<longrightarrow>
      (\<exists>td. timestamp_bytes t = Inr td \<and> timestamp_verify now td = Inr (now - t \<le> 10)))"
  by (simp add: timestamp_verify_def wire_decode_int_def MAX_AGE_def timestamp_bytes_ok
      from_bytes_timestamp)

theorem freshness_bound_witness:
  "(\<exists>td. timestamp_bytes 1730000000 = Inr td \<and> timestamp_verify 1730000010 td = Inr True)
   \<and> (\<exists>td. timestamp_bytes 1730000000 = Inr td \<and> timestamp_verify 1730000011 td = Inr False)
   \<and> (\<exists>td. timestamp_bytes 1730000000 = Inr td \<and> timestamp_verify 1729999000 td = Inr True)"
  using freshness_bound [of 1730000010 "[]" 1730000000]
    freshness_bound [of 1730000011 "[]" 1730000000]
    freshness_bound [of 1729999000 "[]" 1730000000]
  by simp

section \<open>Properties of the request message\<close>

lemma length_sample_mac: "length (sample_mac k m) = 32"
  by (simp add: sample_mac_def)

lemma flag_bytes:
  "wire_encode_int FLAG_OPEN_REQ (Suc 0) False = Inr [0xFF]"
  "wire_encode_int FLAG_CLOSE_REQ (Suc 0) False = Inr [0x00]"
  "wire_encode_int FLAG_KEYGEN_REQ (Suc 0) False = Inr [0xAA]"
  by (simp_all add: wire_encode_int_def to_bytes_def FLAG_OPEN_REQ_def FLAG_CLOSE_REQ_def
      FLAG_KEYGEN_REQ_def)

lemma timestamp_bytes_overflow:
  "\<not> (- (2 ^ 63) \<le> t \<and> t < 2 ^ 63) \<Longrightarrow> timestamp_bytes t = Inl OverflowError"
  by (simp add: timestamp_bytes_def wire_encode_int_def to_bytes_def)

lemma make_request_eq:
  "make_request H s now reqtype =
     (if reqtype \<noteq> ''open'' \<and> reqtype \<noteq> ''close'' \<and> reqtype \<noteq> ''keygen'' then Inl AttributeError
      else if - (2 ^ 63) \<le> now \<and> now < 2 ^ 63
      then Inr (flag_of reqtype # le_bytes 8 now
                @ H (KEY s) (flag_of reqtype # le_bytes 8 now))
      else Inl OverflowError)"
proof (cases "- (2 ^ 63) \<le> now \<and> now < 2 ^ 63")
  case True
  then have "timestamp_bytes now = Inr (le_bytes 8 now)" by (simp add: timestamp_bytes_ok)
  then show ?thesis using True by (simp add: make_request_def flag_bytes flag_of_def)
next
  case False
  then have "timestamp_bytes now = Inl OverflowError" by (rule timestamp_bytes_overflow)
  then show ?thesis using False by (auto simp: make_request_def flag_bytes)
qed

text \<open>
  C3. For each of the three request kinds, every key and every timestamp of the wire
  format, the request is the flag byte (Open \<open>0xFF\<close>, Close \<open>0x00\<close>, KeyRotation
  \<open>0xAA\<close>), then the 8 bytes of the timestamp, signed and little-endian, then the
  digest of HMAC-SHA256 under the key over flag and timestamp; with the 32 bytes of a
  SHA-256 digest that is 41 bytes.
\<close>

theorem make_request_wire_format:
  assumes "reqtype = ''open'' \<or> reqtype = ''close'' \<or> reqtype = ''keygen''"
    and "- (2 ^ 63) \<le> now" and "now < 2 ^ 63"
    and "\<forall>k m. length (H k m) = 32"
  shows "\<exists>flag ts mac.
           make_request H s now reqtype = Inr ([flag] @ ts @ mac)
           \<and> flag = (if reqtype = ''open'' then 0xFF else if reqtype = ''close'' then 0x00 else 0xAA)
           \<and> ts = le_bytes 8 now \<and> length ts = 8 \<and> from_bytes ts True = now
           \<and> mac = H (KEY s) ([flag] @ ts) \<and> length mac = 32
           \<and> length ([flag] @ ts @ mac) = 41"
  using assms
  by (auto simp: make_request_eq flag_of_def from_bytes_timestamp length_le_bytes)

theorem make_request_wire_format_witness:
  "\<exists>flag ts mac. make_request sample_mac \<lparr>KEY = [1, 2, 3], key_file = []\<rparr> 1730000000 ''keygen''
       = Inr ([flag] @ ts @ mac)
     \<and> flag = 0xAA \<and> ts = le_bytes 8 1730000000
     \<and> length ts = 8 \<and> from_bytes ts True = 1730000000
     \<and> mac = sample_mac [1, 2, 3] ([flag] @ ts) \<and> length mac = 32
     \<and> length ([flag] @ ts @ mac) = 41"
  using make_request_wire_format
    [of "''keygen''" 1730000000 sample_mac "\<lparr>KEY = [1, 2, 3], key_file = []\<rparr>"]
  by (simp add: length_sample_mac)

text \<open>
  C7. For a request type that is none of \<^verbatim>\<open>"open"\<close>, \<^verbatim>\<open>"close"\<close>, \<^verbatim>\<open>"keygen"\<close>,
  \<^verbatim>\<open>make_request\<close> raises (an \<^verbatim>\<open>AttributeError\<close>) and builds no message.
\<close>

theorem make_request_unknown_kind:
  "reqtype \<noteq> ''open'' \<Longrightarrow> reqtype \<noteq> ''close'' \<Longrightarrow> reqtype \<noteq> ''keygen'' \<Longrightarrow>
   make_request H s now reqtype = Inl AttributeError"
  by (simp add: make_request_def)

theorem make_request_unknown_kind_witness:
  "make_request sample_mac \<lparr>KEY = [1, 2, 3], key_file = []\<rparr> 1730000000 ''lock'' = Inl AttributeError"
  using make_request_unknown_kind
    [of "''lock''" sample_mac "\<lparr>KEY = [1, 2, 3], key_file = []\<rparr>" 1730000000]
  by simp

text \<open>
  C8. The request bytes are determined by the request kind, the key and the timestamp:
  two runs that agree on them give the same result, whatever else the state holds.
\<close>

theorem make_request_deterministic:
  "KEY s = KEY s' \<Longrightarrow> make_request H s now reqtype = make_request H s' now reqtype"
  by (simp add: make_request_eq)

theorem make_request_deterministic_witness:
  "make_request sample_mac \<lparr>KEY = [1, 2, 3], key_file = [65]\<rparr> 1730000000 ''open''
   = make_request sample_mac \<lparr>KEY = [1, 2, 3], key_file = [66, 67]\<rparr> 1730000000 ''open''"
  using make_request_deterministic
    [of "\<lparr>KEY = [1, 2, 3], key_file = [65]\<rparr>" "\<lparr>KEY = [1, 2, 3], key_file = [66, 67]\<rparr>"
        sample_mac 1730000000 "''open''"]
  by simp

section \<open>Properties of the exchange\<close>

lemma from_bytes_single: "from_bytes [b] False = uint b"
  by (simp add: from_bytes_def)

lemma decode_first_byte:
  "0 < c \<Longrightarrow> (from_bytes (take (Suc 0) bs) False = uint (c :: byte)) = (take (Suc 0) bs = [c])"
proof (cases bs)
  case Nil
  assume "0 < c"
  then have "uint c \<noteq> 0" by (simp add: word_greater_zero_iff uint_0_iff)
  with Nil show ?thesis by (simp add: from_bytes_def eq_commute [of 0])
next
  case (Cons a list)
  then show ?thesis by (simp add: from_bytes_def word_uint_eq_iff)
qed

lemma status_all_good:
  "(from_bytes (take (Suc 0) bs) False = 255) = (take (Suc 0) bs = [255])"
  using decode_first_byte [of 255 bs] by simp

lemma status_keygen_ack:
  "(from_bytes (take (Suc 0) bs) False = 85) = (take (Suc 0) bs = [85])"
  using decode_first_byte [of 85 bs] by simp

lemma try_unknown:
  assumes "reqtype \<noteq> ''open''" "reqtype \<noteq> ''close''" "reqtype \<noteq> ''keygen''"
  shows "ssl_request_try H s w reqtype =
           (s, case connect w of
                 Returns u \<Rightarrow> Raises AttributeError
               | Raises e \<Rightarrow> Raises e
               | Blocks \<Rightarrow> Blocks)"
  using assms by (simp add: ssl_request_try_def make_request_eq split: call.splits)

lemma try_open_close:
  assumes "reqtype = ''open'' \<or> reqtype = ''close''"
  shows "ssl_request_try H s w reqtype =
           (s, case connect w of
                 Blocks \<Rightarrow> Blocks
               | Raises e \<Rightarrow> Raises e
               | Returns u \<Rightarrow>
                   if \<not> in_int64 (clock_request w) then Raises OverflowError
                   else (case sendall w of
                     Blocks \<Rightarrow> Blocks
                   | Raises e \<Rightarrow> Raises e
                   | Returns u \<Rightarrow>
                       (case recv_first w of
                          Blocks \<Rightarrow> Blocks
                        | Raises e \<Rightarrow> Raises e
                        | Returns bs \<Rightarrow>
                            if take 1 bs = [0xFF] then Returns ()
                            else Raises (PyException ''client received bad response''))))"
  using assms
  by (auto simp: ssl_request_try_def make_request_eq in_int64_def recv_def wire_decode_int_def
      FLAG_ALL_GOOD_def status_all_good split: call.splits)

lemma try_keygen:
  "ssl_request_try H s w ''keygen'' =
     (case connect w of
        Blocks \<Rightarrow> (s, Blocks)
      | Raises e \<Rightarrow> (s, Raises e)
      | Returns u \<Rightarrow>
          if \<not> in_int64 (clock_request w) then (s, Raises OverflowError)
          else (case sendall w of
            Blocks \<Rightarrow> (s, Blocks)
          | Raises e \<Rightarrow> (s, Raises e)
          | Returns u \<Rightarrow>
              (case recv_first w of
                 Blocks \<Rightarrow> (s, Blocks)
               | Raises e \<Rightarrow> (s, Raises e)
               | Returns a \<Rightarrow>
                   if take 1 a \<noteq> [0x55]
                   then (s, Raises (PyException ''client received bad response''))
                   else (case recv_second w of
                     Blocks \<Rightarrow> (s, Blocks)
                   | Raises e \<Rightarrow> (s, Raises e)
                   | Returns td \<Rightarrow>
                       if \<not> (clock_verify w - from_bytes (take 8 td) True \<le> 10)
                       then (s, Raises (PyException ''client received stale response''))
                       else (case recv_third w of
                         Blocks \<Rightarrow> (s, Blocks)
                       | Raises e \<Rightarrow> (s, Raises e)
                       | Returns k \<Rightarrow>
                           (case key_write w of
                              Written \<Rightarrow> (s\<lparr>key_file := b64encode (take 32 k)\<rparr>, Returns ())
                            | OpenFailed \<Rightarrow> (s, Raises OSError)
                            | WriteFailed n \<Rightarrow>
                                (s\<lparr>key_file := take n (b64encode (take 32 k))\<rparr>,
                                 Raises OSError)))))))"
  by (auto simp: ssl_request_try_def make_request_eq in_int64_def recv_def wire_decode_int_def
      FLAG_KEYGEN_ACK_def status_keygen_ack timestamp_verify_def MAX_AGE_def
      write_key_to_file_def split: call.splits write_outcome.splits)

lemma recv_Returns_iff: "(recv r n = Returns bs) = (\<exists>x. r = Returns x \<and> bs = take n x)"
  by (auto simp: recv_def split: call.splits)

lemma tv_eq: "timestamp_verify now td = Inr (now - from_bytes td True \<le> 10)"
  by (simp add: timestamp_verify_def wire_decode_int_def MAX_AGE_def)

lemma make_request_Inr_iff:
  "(\<exists>m. make_request H s now reqtype = Inr m) =
   ((reqtype = ''open'' \<or> reqtype = ''close'' \<or> reqtype = ''keygen'') \<and> in_int64 now)"
  by (auto simp: make_request_eq in_int64_def)

lemma reqtype_cases:
  obtains "reqtype = ''open'' \<or> reqtype = ''close''" | "reqtype = ''keygen''"
  | "reqtype \<noteq> ''open''" "reqtype \<noteq> ''close''" "reqtype \<noteq> ''keygen''"
  by blast

lemma try_ends:
  assumes "channel_ends w"
  shows "snd (ssl_request_try H s w reqtype) = Returns ()
       \<or> (\<exists>e. snd (ssl_request_try H s w reqtype) = Raises e \<and> is_Exception e)"
proof (cases reqtype rule: reqtype_cases)
  case 1
  with assms show ?thesis
    unfolding channel_ends_def
    by (cases "connect w"; simp add: try_open_close;
        cases "sendall w"; simp; cases "recv_first w"; simp)
next
  case 2
  with assms show ?thesis
    unfolding channel_ends_def
    by (cases "connect w"; simp add: try_keygen;
        cases "sendall w"; simp; cases "recv_first w"; simp;
        cases "recv_second w"; simp; cases "recv_third w"; simp;
        cases "key_write w"; simp)
next
  case 3
  with assms show ?thesis
    unfolding channel_ends_def by (cases "connect w"; simp add: try_unknown)
qed

lemma ssl_request_snd:
  "snd (ssl_request H s w reqtype) =
     (case snd (ssl_request_try H s w reqtype) of
        Returns u \<Rightarrow> Returns EXIT_SUCCESS
      | Raises e \<Rightarrow> if is_Exception e then Returns EXIT_FAILURE else Raises e
      | Blocks \<Rightarrow> Blocks)"
  by (cases "ssl_request_try H s w reqtype")
     (simp add: ssl_request_def split: call.splits)

lemma ssl_request_fst:
  "fst (ssl_request H s w reqtype) = fst (ssl_request_try H s w reqtype)"
  by (cases "ssl_request_try H s w reqtype")
     (simp add: ssl_request_def split: call.splits)

lemma try_KEY: "KEY (fst (ssl_request_try H s w reqtype)) = KEY s"
proof (cases reqtype rule: reqtype_cases)
  case 1
  then show ?thesis by (simp add: try_open_close)
next
  case 2
  then show ?thesis
    by (auto simp: try_keygen split: call.splits write_outcome.splits)
next
  case 3
  then show ?thesis by (simp add: try_unknown)
qed

lemma try_success_iff:
  "(snd (ssl_request_try H s w reqtype) = Returns ()) =
     (connect w = Returns () \<and> (\<exists>m. make_request H s (clock_request w) reqtype = Inr m)
      \<and> sendall w = Returns () \<and>
      ((reqtype = ''open'' \<or> reqtype = ''close'') \<and> recv (recv_first w) 1 = Returns [0xFF]
       \<or> reqtype = ''keygen'' \<and> recv (recv_first w) 1 = Returns [0x55]
          \<and> (\<exists>td. recv (recv_second w) 8 = Returns td
                \<and> timestamp_verify (clock_verify w) td = Inr True)
          \<and> (\<exists>k. recv (recv_third w) 32 = Returns k) \<and> key_write w = Written))"
proof (cases reqtype rule: reqtype_cases)
  case 1
  then have k: "reqtype \<noteq> ''keygen''" by auto
  from 1 k show ?thesis
    by (auto simp: try_open_close make_request_Inr_iff recv_Returns_iff split: call.splits)
next
  case 2
  then show ?thesis
    by (auto simp: try_keygen make_request_Inr_iff recv_Returns_iff tv_eq
        split: call.splits write_outcome.splits)
next
  case 3
  then show ?thesis
    by (auto simp: try_unknown make_request_Inr_iff split: call.splits)
qed

lemma fresh_example:
  "from_bytes [128, 180, 29, 103, 0, 0, 0, 0] True = 1730000000"
  by (simp add: from_bytes_def)

lemma b64_A: "b64encode [0x41] = [81, 81, 61, 61]"
  by code_simp

text \<open>
  C2. \<^verbatim>\<open>ssl_request\<close> returns \<^verbatim>\<open>EXIT_SUCCESS\<close> exactly when connecting, building
  the request and sending succeeded and every check of the request kind passed: for
  open and close the status byte is \<open>0xFF\<close>; for keygen the ack byte is \<open>0x55\<close>, the
  timestamp passes the freshness check, the key is received and the key file is
  written. In every other case, on a channel whose calls return or raise an
  \<^verbatim>\<open>Exception\<close>, it returns \<^verbatim>\<open>EXIT_FAILURE\<close>.
\<close>

theorem ssl_request_success_iff:
  "(snd (ssl_request H s w reqtype) = Returns EXIT_SUCCESS) =
     (connect w = Returns () \<and> (\<exists>m. make_request H s (clock_request w) reqtype = Inr m)
      \<and> sendall w = Returns () \<and>
      ((reqtype = ''open'' \<or> reqtype = ''close'') \<and> recv (recv_first w) 1 = Returns [0xFF]
       \<or> reqtype = ''keygen'' \<and> recv (recv_first w) 1 = Returns [0x55]
          \<and> (\<exists>td. recv (recv_second w) 8 = Returns td
                \<and> timestamp_verify (clock_verify w) td = Inr True)
          \<and> (\<exists>k. recv (recv_third w) 32 = Returns k) \<and> key_write w = Written))
   \<and> (channel_ends w \<longrightarrow>
         snd (ssl_request H s w reqtype) = Returns EXIT_SUCCESS
         \<or> snd (ssl_request H s w reqtype) = Returns EXIT_FAILURE)"
proof -
  have a: "(snd (ssl_request H s w reqtype) = Returns EXIT_SUCCESS)
         = (snd (ssl_request_try H s w reqtype) = Returns ())"
    by (auto simp: ssl_request_snd EXIT_SUCCESS_def EXIT_FAILURE_def split: call.splits)
  have b: "channel_ends w \<longrightarrow>
         snd (ssl_request H s w reqtype) = Returns EXIT_SUCCESS
         \<or> snd (ssl_request H s w reqtype) = Returns EXIT_FAILURE"
    using try_ends [of w H s reqtype] by (auto simp: ssl_request_snd)
  from a try_success_iff [of H s w reqtype] have c:
    "(snd (ssl_request H s w reqtype) = Returns EXIT_SUCCESS) =
     (connect w = Returns () \<and> (\<exists>m. make_request H s (clock_request w) reqtype = Inr m)
      \<and> sendall w = Returns () \<and>
      ((reqtype = ''open'' \<or> reqtype = ''close'') \<and> recv (recv_first w) 1 = Returns [0xFF]
       \<or> reqtype = ''keygen'' \<and> recv (recv_first w) 1 = Returns [0x55]
          \<and> (\<exists>td. recv (recv_second w) 8 = Returns td
                \<and> timestamp_verify (clock_verify w) td = Inr True)
          \<and> (\<exists>k. recv (recv_third w) 32 = Returns k) \<and> key_write w = Written))"
    by (rule trans)
  from c b show ?thesis by (rule conjI)
qed

theorem ssl_request_success_iff_witness:
  "channel_ends \<lparr>connect = Returns (), clock_request = 1730000011, sendall = Returns (),
      recv_first = Returns [0x55], recv_second = Returns [128, 180, 29, 103, 0, 0, 0, 0],
      clock_verify = 1730000011, recv_third = Returns (replicate 32 0x42),
      key_write = Written\<rparr>
   \<and> snd (ssl_request sample_mac \<lparr>KEY = [1, 2, 3], key_file = [65, 65, 65, 65]\<rparr>
     \<lparr>connect = Returns (), clock_request = 1730000011, sendall = Returns (),
      recv_first = Returns [0x55], recv_second = Returns [128, 180, 29, 103, 0, 0, 0, 0],
      clock_verify = 1730000011, recv_third = Returns (replicate 32 0x42),
      key_write = Written\<rparr> ''keygen'') = Returns EXIT_FAILURE"
proof -
  let ?s = "\<lparr>KEY = [1, 2, 3], key_file = [65, 65, 65, 65]\<rparr>"
  let ?w = "\<lparr>connect = Returns (), clock_request = 1730000011, sendall = Returns (),
      recv_first = Returns [0x55], recv_second = Returns [128, 180, 29, 103, 0, 0, 0, 0],
      clock_verify = 1730000011, recv_third = Returns (replicate 32 0x42),
      key_write = Written\<rparr>"
  have c: "channel_ends ?w" by (simp add: channel_ends_def)
  have stale: "timestamp_verify 1730000011 [128, 180, 29, 103, 0, 0, 0, 0] = Inr False"
    by (simp add: tv_eq fresh_example)
  from ssl_request_success_iff [of sample_mac ?s ?w "''keygen''"] c stale
  show ?thesis by (auto simp: recv_def)
qed

text \<open>
  C9. A successful key rotation writes the received key (in Base64) to the key file and
  leaves the \<^verbatim>\<open>KEY\<close> in memory as it was, so that every later request is built as
  before the rotation, with the old key.
\<close>

theorem keygen_keeps_memory_key:
  assumes "ssl_request H s w ''keygen'' = (s', Returns EXIT_SUCCESS)"
  shows "KEY s' = KEY s
     \<and> (\<exists>k. recv (recv_third w) 32 = Returns k \<and> key_file s' = b64encode k)
     \<and> (\<forall>now reqtype. make_request H s' now reqtype = make_request H s now reqtype)"
proof -
  from assms have "fst (ssl_request H s w ''keygen'') = s'"
    and "snd (ssl_request H s w ''keygen'') = Returns EXIT_SUCCESS" by simp_all
  then have s': "s' = fst (ssl_request_try H s w ''keygen'')"
    and ok: "snd (ssl_request_try H s w ''keygen'') = Returns ()"
    by (auto simp: ssl_request_fst ssl_request_snd EXIT_SUCCESS_def EXIT_FAILURE_def
        split: call.splits if_splits)
  have K: "KEY s' = KEY s" unfolding s' by (rule try_KEY)
  have F: "\<exists>k. recv (recv_third w) 32 = Returns k \<and> key_file s' = b64encode k"
    using ok unfolding s'
    by (auto simp: try_keygen recv_Returns_iff split: if_splits call.splits write_outcome.splits)
  from K have "\<forall>now reqtype. make_request H s' now reqtype = make_request H s now reqtype"
    by (auto simp: make_request_eq)
  with K F show ?thesis by blast
qed

theorem keygen_keeps_memory_key_witness:
  "ssl_request sample_mac \<lparr>KEY = [1, 2, 3], key_file = [65, 65, 65, 65]\<rparr>
     \<lparr>connect = Returns (), clock_request = 1730000003, sendall = Returns (),
      recv_first = Returns [0x55], recv_second = Returns [128, 180, 29, 103, 0, 0, 0, 0],
      clock_verify = 1730000003, recv_third = Returns (replicate 32 0x42),
      key_write = Written\<rparr> ''keygen''
   = (\<lparr>KEY = [1, 2, 3], key_file = b64encode (replicate 32 0x42)\<rparr>, Returns EXIT_SUCCESS)
   \<and> KEY \<lparr>KEY = [1, 2, 3], key_file = b64encode (replicate 32 0x42)\<rparr> = [1, 2, 3]
   \<and> make_request sample_mac \<lparr>KEY = [1, 2, 3], key_file = b64encode (replicate 32 0x42)\<rparr>
         1730000100 ''open''
     = make_request sample_mac \<lparr>KEY = [1, 2, 3], key_file = [65, 65, 65, 65]\<rparr>
         1730000100 ''open''"
proof -
  let ?s = "\<lparr>KEY = [1, 2, 3], key_file = [65, 65, 65, 65]\<rparr>"
  let ?w = "\<lparr>connect = Returns (), clock_request = 1730000003, sendall = Returns (),
      recv_first = Returns [0x55], recv_second = Returns [128, 180, 29, 103, 0, 0, 0, 0],
      clock_verify = 1730000003, recv_third = Returns (replicate 32 0x42),
      key_write = Written\<rparr>"
  let ?s' = "\<lparr>KEY = [1, 2, 3], key_file = b64encode (replicate 32 0x42)\<rparr>"
  have run: "ssl_request sample_mac ?s ?w ''keygen'' = (?s', Returns EXIT_SUCCESS)"
    by (simp add: ssl_request_def try_keygen in_int64_def fresh_example)
  from keygen_keeps_memory_key [OF run] run show ?thesis by simp
qed




text \<open>
  What the exchange does keep of the key file: it changes only in a key rotation, after
  the ack check and the freshness check have passed and the third \<^verbatim>\<open>conn.recv\<close> has
  returned; with a correct ack byte and a failed freshness check it is unchanged.
\<close>

lemma key_file_guarded:
  assumes "ssl_request H s w reqtype = (s', r)"
  shows "(key_file s' \<noteq> key_file s \<longrightarrow>
            reqtype = ''keygen'' \<and> recv (recv_first w) 1 = Returns [0x55]
            \<and> (\<exists>td. recv (recv_second w) 8 = Returns td
                  \<and> timestamp_verify (clock_verify w) td = Inr True)
            \<and> (\<exists>k. recv (recv_third w) 32 = Returns k))
       \<and> (recv (recv_first w) 1 = Returns [0x55]
            \<and> (\<exists>td. recv (recv_second w) 8 = Returns td
                  \<and> timestamp_verify (clock_verify w) td = Inr False)
          \<longrightarrow> key_file s' = key_file s)"
proof -
  from assms have "fst (ssl_request H s w reqtype) = s'" by simp
  then have s': "s' = fst (ssl_request_try H s w reqtype)"
    by (simp add: ssl_request_fst)
  show ?thesis
  proof (cases reqtype rule: reqtype_cases)
    case 1
    then show ?thesis unfolding s' by (simp add: try_open_close)
  next
    case 2
    then show ?thesis unfolding s'
      by (auto simp: try_keygen recv_Returns_iff tv_eq
          split: if_splits call.splits write_outcome.splits)
  next
    case 3
    then show ?thesis unfolding s' by (simp add: try_unknown)
  qed
qed

text \<open>
  C1. The claim that the stored key changes only after a full 32-byte read of the new
  key does not hold of the program: with a correct ack byte and a fresh timestamp, a
  third \<^verbatim>\<open>conn.recv(32)\<close> that returns one byte, or none, is written to the key
  file as the new key, and \<^verbatim>\<open>ssl_request\<close> returns \<^verbatim>\<open>EXIT_SUCCESS\<close>.
\<close>

theorem key_swap_short_read:
  "ssl_request sample_mac \<lparr>KEY = [1, 2, 3], key_file = [65, 65, 65, 65]\<rparr>
     \<lparr>connect = Returns (), clock_request = 1730000003, sendall = Returns (),
      recv_first = Returns [0x55], recv_second = Returns [128, 180, 29, 103, 0, 0, 0, 0],
      clock_verify = 1730000003, recv_third = Returns [0x41], key_write = Written\<rparr> ''keygen''
   = (\<lparr>KEY = [1, 2, 3], key_file = [81, 81, 61, 61]\<rparr>, Returns EXIT_SUCCESS)
   \<and> ssl_request sample_mac \<lparr>KEY = [1, 2, 3], key_file = [65, 65, 65, 65]\<rparr>
     \<lparr>connect = Returns (), clock_request = 1730000003, sendall = Returns (),
      recv_first = Returns [0x55], recv_second = Returns [128, 180, 29, 103, 0, 0, 0, 0],
      clock_verify = 1730000003, recv_third = Returns [], key_write = Written\<rparr> ''keygen''
   = (\<lparr>KEY = [1, 2, 3], key_file = []\<rparr>, Returns EXIT_SUCCESS)"
  by (simp add: ssl_request_def try_keygen in_int64_def fresh_example b64_A
      del: b64encode.simps(2))

end
